theory Spec2Isabelle
  imports Complex_Main
begin

section \<open>Values, errors and dictionaries\<close>

text \<open>
  The tools exchange JSON documents. \<open>json.load\<close> yields \<open>None\<close>, booleans, integers,
  floats, strings, lists and dictionaries. Python integers are unbounded (\<open>int\<close>).
  A Python float is kept opaque: no operation of the tools computes with one, only the
  numerical library does.
\<close>

typedecl pyfloat

datatype json =
    JNull
  | JBool bool
  | JInt int
  | JFloat pyfloat
  | JString string
  | JArray "json list"
  | JObject "(string \<times> json) list"

text \<open>
  A Python \<open>dict\<close> keeps its keys in insertion order and holds each key once: it is an
  association list whose keys are distinct.
\<close>

type_synonym dict = "(string \<times> json) list"

text \<open>The exceptions the tools raise or let through.\<close>

datatype pyerror =
    ValueError string
  | KeyError string
  | IndexError
  | ZeroDivisionError
  | TypeError
  | AttributeError
  | FileNotFoundError string
  | JSONDecodeError string
  | LibraryError string

definition dict_keys :: "dict \<Rightarrow> string list" where
  "dict_keys d = map fst d"

definition dict_contains :: "dict \<Rightarrow> string \<Rightarrow> bool" where
  "dict_contains d k = (k \<in> set (dict_keys d))"

text \<open>\<open>d[k]\<close>: raises \<open>KeyError\<close> when the key is absent.\<close>

definition dict_getitem :: "dict \<Rightarrow> string \<Rightarrow> pyerror + json" where
  "dict_getitem d k = (case map_of d k of None \<Rightarrow> Inl (KeyError k) | Some v \<Rightarrow> Inr v)"

text \<open>\<open>d[k] = v\<close>: an existing key keeps its position, a new key goes last.\<close>

fun dict_setitem :: "dict \<Rightarrow> string \<Rightarrow> json \<Rightarrow> dict" where
  "dict_setitem [] k v = [(k, v)]"
| "dict_setitem ((k', v') # d) k v =
     (if k' = k then (k', v) # d else (k', v') # dict_setitem d k v)"

text \<open>\<open>d.update(other)\<close>: every item of \<open>other\<close> is stored in turn.\<close>

definition dict_update :: "dict \<Rightarrow> dict \<Rightarrow> dict" where
  "dict_update d other = foldl (\<lambda>acc (k, v). dict_setitem acc k v) d other"

text \<open>\<open>dict(pairs)\<close>: the dictionary built from a sequence of key/value pairs.\<close>

definition py_dict :: "(string \<times> json) list \<Rightarrow> dict" where
  "py_dict pairs = dict_update [] pairs"

section \<open>The collaborators outside the repository\<close>

text \<open>
  What the tools obtain from libraries and from the machine, and what this development
  does not compute, is a parameter:
  \<^item> \<open>arange_other\<close>: \<open>numpy.arange(start, end, step).tolist()\<close> on arguments that are
    not three integers of moderate size (floats, booleans, strings, huge integers): the
    list, or the message of the exception the library raises;
  \<^item> \<open>eq_other\<close>: Python's \<open>==\<close> on two values that are not both strings;
  \<^item> \<open>str_other\<close>: the text an f-string gives a value that is neither a string nor an
    integer;
  \<^item> \<open>today\<close>: the current date as \<open>%d/%m/%Y\<close>;
  \<^item> \<open>git_hexsha\<close>: the revision of the enclosing working copy, an error outside one;
  \<^item> \<open>sbatch\<close>: running the scheduler's submission command on a script: an error when
    the command cannot be started, otherwise its exit status and its standard output.
\<close>

text \<open>An exception raised inside a library is told apart from those the tools raise.\<close>

definition from_library :: "string + 'a \<Rightarrow> pyerror + 'a" where
  "from_library r = (case r of Inl message \<Rightarrow> Inl (LibraryError message) | Inr x \<Rightarrow> Inr x)"

record env =
  arange_other :: "json \<Rightarrow> json \<Rightarrow> json \<Rightarrow> string + json list"
  eq_other :: "json \<Rightarrow> json \<Rightarrow> bool"
  str_other :: "json \<Rightarrow> string"
  today :: string
  git_hexsha :: "pyerror + string"
  sbatch :: "string \<Rightarrow> pyerror + int \<times> string"

section \<open>The Parameter Expander\<close>

text \<open>
  \<open>numpy.arange(start, stop, step)\<close> on integers: \<open>ceil((stop - start) / step)\<close> values
  (none when that is not positive), the \<open>i\<close>-th being \<open>start + i * step\<close>.
\<close>

definition arange_len :: "int \<Rightarrow> int \<Rightarrow> int \<Rightarrow> nat" where
  "arange_len start stop step = nat \<lceil>real_of_int (stop - start) / real_of_int step\<rceil>"

definition arange_int :: "int \<Rightarrow> int \<Rightarrow> int \<Rightarrow> int list" where
  "arange_int start stop step =
     map (\<lambda>i. start + int i * step) [0..<arange_len start stop step]"

text \<open>
  numpy computes the length in double precision and stores 64-bit integers; both are
  exact while the three arguments stay within \<open>2^52\<close> in magnitude. A zero step makes
  the division fail. Every other call is left to \<open>arange_other\<close>.
\<close>

definition moderate :: "int \<Rightarrow> bool" where
  "moderate x = (\<bar>x\<bar> \<le> 2 ^ 52)"

fun np_arange :: "env \<Rightarrow> json \<Rightarrow> json \<Rightarrow> json \<Rightarrow> pyerror + json list" where
  "np_arange env (JInt start) (JInt stop) (JInt step) =
     (if moderate start \<and> moderate stop \<and> moderate step
      then (if step = 0 then Inl ZeroDivisionError
            else Inr (map JInt (arange_int start stop step)))
      else from_library (arange_other env (JInt start) (JInt stop) (JInt step)))"
| "np_arange env start stop step = from_library (arange_other env start stop step)"

text \<open>
  The body of the loop over \<open>param_names\<close>: a list is taken as it is, a dictionary is
  read at \<open>"start"\<close>, \<open>"end"\<close> and \<open>"step"\<close> (in this order) and handed to
  \<open>numpy.arange\<close>, anything else raises \<open>ValueError("Invalid range type")\<close>.
\<close>

fun resolve_range :: "env \<Rightarrow> json \<Rightarrow> pyerror + json list" where
  "resolve_range env (JArray xs) = Inr xs"
| "resolve_range env (JObject d) =
     (case dict_getitem d ''start'' of
        Inl e \<Rightarrow> Inl e
      | Inr start \<Rightarrow>
         (case dict_getitem d ''end'' of
            Inl e \<Rightarrow> Inl e
          | Inr stop \<Rightarrow>
             (case dict_getitem d ''step'' of
                Inl e \<Rightarrow> Inl e
              | Inr step \<Rightarrow> np_arange env start stop step)))"
| "resolve_range env _ = Inl (ValueError ''Invalid range type'')"

text \<open>The loop itself: \<open>param_ranges\<close> grows by one sequence per name, the first failure ends it.\<close>

fun param_ranges_loop ::
  "env \<Rightarrow> dict \<Rightarrow> string list \<Rightarrow> json list list \<Rightarrow> pyerror + json list list" where
  "param_ranges_loop env d [] param_ranges = Inr param_ranges"
| "param_ranges_loop env d (param_name # names) param_ranges =
     (case dict_getitem d param_name of
        Inl e \<Rightarrow> Inl e
      | Inr v \<Rightarrow>
         (case resolve_range env v of
            Inl e \<Rightarrow> Inl e
          | Inr r \<Rightarrow> param_ranges_loop env d names (param_ranges @ [r])))"

text \<open>
  \<open>itertools.product(*pools)\<close>, as the library documents it: starting from the single
  empty tuple, every pool extends every partial tuple at its end, pool by pool.
\<close>

definition itertools_product :: "'a list list \<Rightarrow> 'a list list" where
  "itertools_product pools =
     foldl (\<lambda>result pool. concat (map (\<lambda>x. map (\<lambda>y. x @ [y]) pool) result)) [[]] pools"

text \<open>
  \<open>add_array_parameters\<close>. The argument is whatever the range file holds; \<open>.keys()\<close>
  exists on a dictionary only.
\<close>

fun add_array_parameters :: "env \<Rightarrow> json \<Rightarrow> pyerror + dict list" where
  "add_array_parameters env (JObject range_array_params) =
     (let param_names = dict_keys range_array_params in
      case param_ranges_loop env range_array_params param_names [] of
        Inl e \<Rightarrow> Inl e
      | Inr param_ranges \<Rightarrow>
          Inr (map (\<lambda>combination. py_dict (zip param_names combination))
                 (itertools_product param_ranges)))"
| "add_array_parameters env _ = Inl AttributeError"


section \<open>Strings\<close>

text \<open>
  A character stands for a code point below 256. \<open>str.startswith\<close>:
\<close>

definition startswith :: "string \<Rightarrow> string \<Rightarrow> bool" where
  "startswith s p = (take (length p) s = p)"

text \<open>
  \<open>s.replace(old, "")\<close>: every occurrence of \<open>old\<close> is deleted, scanning from the
  left; an empty \<open>old\<close> leaves the string as it is.
\<close>

function str_remove :: "string \<Rightarrow> string \<Rightarrow> string" where
  "str_remove old [] = []"
| "str_remove old (c # s) =
     (if old = [] then c # s
      else if startswith (c # s) old then str_remove old (drop (length old) (c # s))
      else c # str_remove old s)"
  by pat_completeness auto
termination
  by (relation "measure (\<lambda>(old, s). length s)") auto

text \<open>
  The white space of \<open>str.strip\<close> and \<open>str.split\<close>: tab to carriage return, the
  four separators \<open>0x1C\<close> to \<open>0x1F\<close>, the space, \<open>0x85\<close> and \<open>0xA0\<close>.
\<close>

definition is_space :: "char \<Rightarrow> bool" where
  "is_space c = (let n = (of_char c :: nat) in
     (9 \<le> n \<and> n \<le> 13) \<or> (28 \<le> n \<and> n \<le> 32) \<or> n = 133 \<or> n = 160)"

definition py_strip :: "string \<Rightarrow> string" where
  "py_strip s = rev (dropWhile is_space (rev (dropWhile is_space s)))"

text \<open>\<open>s.split()\<close>: the maximal runs of characters that are not white space.\<close>

fun split_from :: "string \<Rightarrow> string \<Rightarrow> string list" where
  "split_from cur [] = (if cur = [] then [] else [cur])"
| "split_from cur (c # cs) =
     (if is_space c then (if cur = [] then split_from [] cs else cur # split_from [] cs)
      else split_from (cur @ [c]) cs)"

definition py_split :: "string \<Rightarrow> string list" where
  "py_split s = split_from [] s"

text \<open>
  \<open>int(s)\<close> in base ten, \<open>None\<close> for \<open>ValueError\<close>. The white space skipped around
  the number is tab to carriage return, the space, \<open>0x85\<close> and \<open>0xA0\<close> (the separators
  \<open>0x1C\<close> to \<open>0x1F\<close> are not skipped here). After an optional sign come groups of
  digits separated by single underscores.
\<close>

definition is_digit :: "char \<Rightarrow> bool" where
  "is_digit c = (let n = (of_char c :: nat) in 48 \<le> n \<and> n \<le> 57)"

definition digit_value :: "char \<Rightarrow> nat" where
  "digit_value c = of_char c - 48"

definition is_int_space :: "char \<Rightarrow> bool" where
  "is_int_space c = (let n = (of_char c :: nat) in
     (9 \<le> n \<and> n \<le> 13) \<or> n = 32 \<or> n = 133 \<or> n = 160)"

fun split_on :: "char \<Rightarrow> string \<Rightarrow> string \<Rightarrow> string list" where
  "split_on sep cur [] = [cur]"
| "split_on sep cur (c # cs) =
     (if c = sep then cur # split_on sep [] cs else split_on sep (cur @ [c]) cs)"

definition decimal :: "string \<Rightarrow> nat" where
  "decimal ds = foldl (\<lambda>acc c. 10 * acc + digit_value c) 0 ds"

definition parse_digits :: "string \<Rightarrow> nat option" where
  "parse_digits t =
     (let groups = split_on (CHR ''_'') [] t in
      if list_all (\<lambda>g. g \<noteq> [] \<and> list_all is_digit g) groups
      then Some (decimal (concat groups)) else None)"

definition py_int :: "string \<Rightarrow> int option" where
  "py_int s =
     (case rev (dropWhile is_int_space (rev (dropWhile is_int_space s))) of
        [] \<Rightarrow> None
      | c # r \<Rightarrow>
         if c = CHR ''-'' then map_option (\<lambda>n. - int n) (parse_digits r)
         else if c = CHR ''+'' then map_option int (parse_digits r)
         else map_option int (parse_digits (c # r)))"

text \<open>\<open>str(n)\<close> of an integer: its decimal digits, after a minus sign when negative.\<close>

definition digit_char :: "nat \<Rightarrow> char" where
  "digit_char d = char_of (48 + d)"

fun show_nat :: "nat \<Rightarrow> string" where
  "show_nat n = (if n < 10 then [digit_char n] else show_nat (n div 10) @ [digit_char (n mod 10)])"

definition show_int :: "int \<Rightarrow> string" where
  "show_int i = (if i < 0 then CHR ''-'' # show_nat (nat (- i)) else show_nat (nat i))"

text \<open>\<open>os.path.join(a, b)\<close> on a POSIX system.\<close>

definition path_join :: "string \<Rightarrow> string \<Rightarrow> string" where
  "path_join a b =
     (if startswith b ''/'' then b
      else if a = [] \<or> last a = CHR ''/'' then a @ b
      else a @ ''/'' @ b)"


section \<open>Files and directories\<close>

text \<open>
  A file holds a JSON document or text that is no JSON document. The state of the
  machine is the files by path, what \<open>os.listdir\<close> and \<open>os.path.isdir\<close> report for a
  directory (each child's name, and whether it is a directory), and a log of what a run
  does: the directories handed to \<open>os.makedirs\<close>, the modes set and the lines printed.
  Modes are numbers (\<open>0o700\<close> is 448). Failures of the disk itself (no permission,
  no space) are not part of the model.
\<close>

datatype filedata = JsonText json | PlainText string

record world =
  files :: "string \<rightharpoonup> filedata"
  listdir :: "string \<Rightarrow> (string \<times> bool) list"
  made_dirs :: "string list"
  modes :: "(string \<times> nat) list"
  printed :: "string list"

definition load_json :: "world \<Rightarrow> string \<Rightarrow> pyerror + json" where
  "load_json w file_path =
     (case files w file_path of
        None \<Rightarrow> Inl (FileNotFoundError file_path)
      | Some (PlainText t) \<Rightarrow> Inl (JSONDecodeError t)
      | Some (JsonText parameters) \<Rightarrow> Inr parameters)"

definition dump_json :: "json \<Rightarrow> string \<Rightarrow> world \<Rightarrow> world" where
  "dump_json data filename w = w\<lparr>files := (files w)(filename \<mapsto> JsonText data)\<rparr>"

definition makedirs :: "string \<Rightarrow> world \<Rightarrow> world" where
  "makedirs path w = w\<lparr>made_dirs := made_dirs w @ [path]\<rparr>"

definition chmod :: "string \<Rightarrow> nat \<Rightarrow> world \<Rightarrow> world" where
  "chmod path mode w = w\<lparr>modes := modes w @ [(path, mode)]\<rparr>"

definition print :: "string \<Rightarrow> world \<Rightarrow> world" where
  "print line w = w\<lparr>printed := printed w @ [line]\<rparr>"

text \<open>\<open>v[key]\<close> with a string key: only a dictionary can be read that way.\<close>

fun py_getitem :: "json \<Rightarrow> string \<Rightarrow> pyerror + json" where
  "py_getitem (JObject d) k = dict_getitem d k"
| "py_getitem _ k = Inl TypeError"

text \<open>\<open>a == b\<close>: two strings are equal when their characters are.\<close>

fun py_eq :: "env \<Rightarrow> json \<Rightarrow> json \<Rightarrow> bool" where
  "py_eq env (JString a) (JString b) = (a = b)"
| "py_eq env a b = eq_other env a b"

text \<open>What an f-string puts for a value.\<close>

fun py_str :: "env \<Rightarrow> json \<Rightarrow> string" where
  "py_str env (JString s) = s"
| "py_str env (JInt i) = show_int i"
| "py_str env v = str_other env v"

section \<open>The Run Directory Allocator\<close>

text \<open>
  The children kept: directories whose name starts with the prefix.
\<close>

definition existing_dirs :: "(string \<times> bool) list \<Rightarrow> string \<Rightarrow> string list" where
  "existing_dirs listing prefix =
     map fst (filter (\<lambda>(d, isdir). isdir \<and> startswith d prefix) listing)"

text \<open>The loop over \<open>existing_dirs\<close>: a name that \<open>int\<close> refuses is passed over.\<close>

fun highest_num_loop :: "string \<Rightarrow> string list \<Rightarrow> int \<Rightarrow> int" where
  "highest_num_loop prefix [] highest_num = highest_num"
| "highest_num_loop prefix (dir_name # dirs) highest_num =
     (case py_int (str_remove prefix dir_name) of
        Some num \<Rightarrow> highest_num_loop prefix dirs (max highest_num num)
      | None \<Rightarrow> highest_num_loop prefix dirs highest_num)"

definition next_dir_name :: "(string \<times> bool) list \<Rightarrow> string \<Rightarrow> string" where
  "next_dir_name listing prefix =
     prefix @ show_int (highest_num_loop prefix (existing_dirs listing prefix) 0 + 1)"

definition create_directory_structure :: "world \<Rightarrow> string \<Rightarrow> string \<Rightarrow> string \<times> world" where
  "create_directory_structure w dir prefix =
     (let w1 = makedirs dir w;
          next_dir_path = path_join dir (next_dir_name (listdir w1 dir) prefix);
          w2 = makedirs next_dir_path w1;
          w3 = makedirs (path_join next_dir_path ''data'') w2;
          w4 = makedirs (path_join next_dir_path ''slurm/error'') w3;
          w5 = makedirs (path_join next_dir_path ''slurm/output'') w4
      in (next_dir_path, w5))"

section \<open>The Metadata Recorder: creation\<close>

text \<open>
  The dictionary is built before the file is opened: a missing description or a missing
  working copy leaves no file behind.
\<close>

definition generate_metadata_file ::
  "env \<Rightarrow> world \<Rightarrow> string \<Rightarrow> json \<Rightarrow> json \<Rightarrow> json \<Rightarrow> json \<Rightarrow> (pyerror + unit) \<times> world" where
  "generate_metadata_file env w metadata_path slurm_params simulation_params array_params other_params =
     (case py_getitem other_params ''description'' of
        Inl e \<Rightarrow> (Inl e, w)
      | Inr description \<Rightarrow>
         (case git_hexsha env of
            Inl e \<Rightarrow> (Inl e, w)
          | Inr hexsha \<Rightarrow>
             (let metadata = JObject
                [(''general_metadata'', JObject
                    [(''author'', JString ''Julien Drapeau''),
                     (''creation_date'', JString (today env)),
                     (''description'', description),
                     (''github_version'', JString hexsha)]),
                 (''job_information'', JObject
                    [(''job_id'', JNull),
                     (''state'', JNull),
                     (''start_time'', JNull),
                     (''end_time'', JNull),
                     (''elapsed_time'', JNull)]),
                 (''slurm_parameters'', slurm_params),
                 (''simulation_parameters'', simulation_params),
                 (''array_parameters'', array_params)]
              in (Inr (), dump_json metadata metadata_path w))))"


section \<open>The Submission Script Generator\<close>

definition join_lines :: "string list \<Rightarrow> string" where
  "join_lines ls = (case ls of [] \<Rightarrow> [] | l # rest \<Rightarrow> l @ concat (map (\<lambda>x. CHR 0x0A # x) rest))"

definition script_text ::
  "string \<Rightarrow> string \<Rightarrow> string \<Rightarrow> string \<Rightarrow> string \<Rightarrow> string \<Rightarrow> string \<Rightarrow>
   string \<Rightarrow> string \<Rightarrow> string \<Rightarrow> string \<Rightarrow> string \<Rightarrow> string" where
  "script_text partition_v account array time job_name cpus_per_task mem_per_cpu
       output_path error_path array_path simul_path python_script_path =
     join_lines
      [''#!/bin/bash'',
       ''#SBATCH --partition='' @ partition_v,
       ''#SBATCH --account='' @ account,
       ''#SBATCH --array='' @ array,
       ''#SBATCH --time='' @ time,
       ''#SBATCH --job-name='' @ job_name,
       ''#SBATCH --cpus-per-task='' @ cpus_per_task,
       ''#SBATCH --mem-per-cpu='' @ mem_per_cpu,
       ''#SBATCH --output='' @ output_path @ ''/slurm-%A-%a.out'',
       ''#SBATCH --error='' @ error_path @ ''/slurm-%A-%a.err'',
       ''#SBATCH --mail-user=julien.drapeau@usherbrooke.ca'',
       ''#SBATCH --mail-type=ALL'',
       [],
       ''export JAX_ENABLE_X64=True # JAX uses int32 by default'',
       [],
       ''module load StdEnv/2020'',
       ''source ENV/bin/activate'',
       [],
       ''# Define the position of the desired combination in the list (1-indexed)'',
       ''position=$SLURM_ARRAY_TASK_ID'',
       [],
       ''# Load the combination at the specified position from array_params.json'',
       ''array_dict=$(jq --argjson pos '' @ [CHR 0x22] @ ''$((position - 1))'' @ [CHR 0x22]
          @ '' '' @ [CHR 0x27] @ ''.[$pos]'' @ [CHR 0x27] @ '' '' @ array_path @ '')'',
       [],
       ''# Load the other dictionary from simul_params.json'',
       ''simul_dict=$(<'' @ simul_path @ '')'',
       [],
       ''# Merge both dictionary'',
       ''merged=$(jq -n --argjson array_dict '' @ [CHR 0x22] @ ''$array_dict'' @ [CHR 0x22]
          @ '' --argjson simul_dict '' @ [CHR 0x22] @ ''$simul_dict'' @ [CHR 0x22]
          @ '' '' @ [CHR 0x27] @ ''$simul_dict + $array_dict'' @ [CHR 0x27] @ '')'',
       [],
       ''# Launch the Python script (-u for unbuffered output)'',
       ''python -u '' @ python_script_path @ '' '' @ [CHR 0x22] @ ''$merged'' @ [CHR 0x22],
       [],
       ''echo '' @ [CHR 0x27] @ ''My job is finished !'' @ [CHR 0x27]]"

text \<open>
  The keys of the scheduler parameters are read in the order of the template. The script
  file is opened for writing first, so a missing key leaves an empty script behind.
\<close>

fun getitems :: "json \<Rightarrow> string list \<Rightarrow> pyerror + json list" where
  "getitems v [] = Inr []"
| "getitems v (k # ks) =
     (case py_getitem v k of
        Inl e \<Rightarrow> Inl e
      | Inr x \<Rightarrow> (case getitems v ks of Inl e \<Rightarrow> Inl e | Inr xs \<Rightarrow> Inr (x # xs)))"

definition generate_slurm_script ::
  "env \<Rightarrow> world \<Rightarrow> string \<Rightarrow> string \<Rightarrow> json \<Rightarrow> string \<Rightarrow> string \<Rightarrow> (pyerror + unit) \<times> world" where
  "generate_slurm_script env w subdir_path python_script_path slurm_params simul_path array_path =
     (let slurm_script_path = path_join subdir_path ''job_script.sh'';
          output_path = path_join subdir_path ''slurm/output'';
          error_path = path_join subdir_path ''slurm/error'';
          w1 = w\<lparr>files := (files w)(slurm_script_path \<mapsto> PlainText [])\<rparr>
      in case getitems slurm_params
              [''partition'', ''account'', ''array'', ''time'', ''job_name'',
               ''cpus_per_task'', ''mem_per_cpu''] of
           Inr [partition_v, account, array, time, job_name, cpus_per_task, mem_per_cpu] \<Rightarrow>
             (Inr (),
              w1\<lparr>files := (files w1)(slurm_script_path \<mapsto> PlainText
                 (script_text (py_str env partition_v) (py_str env account) (py_str env array)
                    (py_str env time) (py_str env job_name) (py_str env cpus_per_task)
                    (py_str env mem_per_cpu) output_path error_path array_path simul_path
                    python_script_path))\<rparr>)
         | Inr _ \<Rightarrow> (Inl TypeError, w1)
         | Inl e \<Rightarrow> (Inl e, w1))"

section \<open>The preparation run\<close>

text \<open>
  The main program of \<open>job_prepper.py\<close>: \<open>argv\<close> is \<open>sys.argv\<close>. Every step that
  fails ends the run with the state reached so far.
\<close>

definition prepare :: "env \<Rightarrow> world \<Rightarrow> string list \<Rightarrow> (pyerror + unit) \<times> world" where
  "prepare env w argv =
     (if length argv \<noteq> 3
      then (Inl (ValueError ''Usage: python tools/job_prepper.py parameter_path python_script_path''), w)
      else
       (let python_script_path = argv ! 2;
            parameter_path = argv ! 1;
            range_array_path = path_join parameter_path ''range_array_params.json'';
            array_path = path_join parameter_path ''array_params.json'';
            simul_path = path_join parameter_path ''simul_params.json'';
            slurm_path = path_join parameter_path ''slurm_params.json'';
            other_path = path_join parameter_path ''other_params.json''
        in
        (case load_json w range_array_path of Inl e \<Rightarrow> (Inl e, w) | Inr range_array_params \<Rightarrow>
        (case load_json w simul_path of Inl e \<Rightarrow> (Inl e, w) | Inr simul_params \<Rightarrow>
        (case load_json w slurm_path of Inl e \<Rightarrow> (Inl e, w) | Inr slurm_params \<Rightarrow>
        (case load_json w other_path of Inl e \<Rightarrow> (Inl e, w) | Inr other_params \<Rightarrow>
        (case py_getitem slurm_params ''output_directory'' of Inl e \<Rightarrow> (Inl e, w) | Inr slurm_out \<Rightarrow>
        (case py_getitem simul_params ''output_directory'' of Inl e \<Rightarrow> (Inl e, w) | Inr simul_out \<Rightarrow>
        (if \<not> py_eq env slurm_out simul_out
         then (Inl (ValueError ''Output directories are different.''), w)
         else
         (case add_array_parameters env range_array_params of Inl e \<Rightarrow> (Inl e, w) | Inr combinations \<Rightarrow>
         (let w1 = dump_json (JArray (map JObject combinations)) array_path w in
          (case slurm_out of
             JString output_directory \<Rightarrow>
              (let (sub_dir_path, w2) = create_directory_structure w1 output_directory ''run_'';
                   w3 = print (''Created the following directory:  '' @ sub_dir_path) w2;
                   secondary_job_path = path_join sub_dir_path ''job_script.sh'';
                   metadata_path = path_join sub_dir_path ''metadata.json''
               in
               (case generate_slurm_script env w3 sub_dir_path python_script_path slurm_params
                       simul_path array_path of
                  (Inl e, w4) \<Rightarrow> (Inl e, w4)
                | (Inr u, w4) \<Rightarrow>
                   (let w5 = chmod secondary_job_path 448 w4 in
                    (case generate_metadata_file env w5 metadata_path slurm_params simul_params
                            range_array_params other_params of
                       (Inl e, w6) \<Rightarrow> (Inl e, w6)
                     | (Inr u', w6) \<Rightarrow>
                        (Inr (),
                         print (''python tools/job_launcher.py '' @ sub_dir_path)
                           (print ''Job preparation was a success. To submit the job, run the following command:''
                              w6))))))
           | other_value \<Rightarrow> (Inl TypeError, w1)))))))))))))"

section \<open>The Metadata Recorder: update, and the Job Submitter\<close>

text \<open>
  \<open>update_metadata\<close>. The document is read and changed in memory, and written last.
  \<open>"job_information" not in metadata\<close> and the two subscripts need a dictionary;
  \<open>.update\<close> exists on a dictionary only.
\<close>

definition update_metadata :: "world \<Rightarrow> string \<Rightarrow> dict \<Rightarrow> (pyerror + unit) \<times> world" where
  "update_metadata w metadata_file_path job_details =
     (case load_json w metadata_file_path of
        Inl e \<Rightarrow> (Inl e, w)
      | Inr (JObject metadata) \<Rightarrow>
         (let metadata1 =
                (if \<not> dict_contains metadata ''job_information''
                 then dict_setitem metadata ''job_information'' (JObject [])
                 else metadata)
          in case dict_getitem metadata1 ''job_information'' of
               Inl e \<Rightarrow> (Inl e, w)
             | Inr (JObject job_information) \<Rightarrow>
                 (Inr (),
                  dump_json
                    (JObject (dict_setitem metadata1 ''job_information''
                       (JObject (dict_update job_information job_details))))
                    metadata_file_path w)
             | Inr _ \<Rightarrow> (Inl AttributeError, w))
      | Inr _ \<Rightarrow> (Inl TypeError, w))"

text \<open>
  \<open>submit_job\<close>. The exit status of the command is not looked at; \<open>[-1]\<close> on the empty
  list of words raises \<open>IndexError\<close>.
\<close>

definition submit_job :: "env \<Rightarrow> world \<Rightarrow> string \<Rightarrow> string \<Rightarrow> (pyerror + unit) \<times> world" where
  "submit_job env w slurm_script_path metadata_file_path =
     (case sbatch env slurm_script_path of
        Inl e \<Rightarrow> (Inl e, w)
      | Inr (returncode, stdout) \<Rightarrow>
         (let job_id_str = py_strip stdout;
              tokens = py_split job_id_str
          in if tokens = [] then (Inl IndexError, w)
             else let job_id = last tokens
                  in update_metadata w metadata_file_path [(''job_id'', JString job_id)]))"

text \<open>The main program of \<open>job_launcher.py\<close>.\<close>

definition launch :: "env \<Rightarrow> world \<Rightarrow> string list \<Rightarrow> (pyerror + unit) \<times> world" where
  "launch env w argv =
     (if length argv < 2 then (Inl IndexError, w)
      else
       let sub_dir_path = argv ! 1;
           slurm_script_path = path_join sub_dir_path ''job_script.sh'';
           metadata_file_path = path_join sub_dir_path ''metadata.json''
       in case submit_job env w slurm_script_path metadata_file_path of
            (Inl e, w1) \<Rightarrow> (Inl e, w1)
          | (Inr _, w1) \<Rightarrow> (Inr (), print ''Job submitted successfully.'' w1))"


section \<open>Notions used in the statements\<close>

text \<open>Resolving the values of all parameters in declared order, up to the first failure.\<close>

fun resolve_all :: "env \<Rightarrow> json list \<Rightarrow> pyerror + json list list" where
  "resolve_all env [] = Inr []"
| "resolve_all env (v # vs) =
     (case resolve_range env v of
        Inl e \<Rightarrow> Inl e
      | Inr r \<Rightarrow> (case resolve_all env vs of Inl e \<Rightarrow> Inl e | Inr rs \<Rightarrow> Inr (r # rs)))"

text \<open>
  The lexicographic product order. A position gives one index per pool; \<open>positions\<close>
  lists the positions with the first pool's index varying slowest; \<open>pick\<close> reads the
  values at a position; \<open>lex_less\<close> compares positions from the first index on.
\<close>

definition positions :: "'a list list \<Rightarrow> nat list list" where
  "positions pools = product_lists (map (\<lambda>pool. [0..<length pool]) pools)"

definition pick :: "'a list list \<Rightarrow> nat list \<Rightarrow> 'a list" where
  "pick pools p = map (\<lambda>(pool, i). pool ! i) (zip pools p)"

definition lex_less :: "nat list \<Rightarrow> nat list \<Rightarrow> bool" where
  "lex_less p q = ((p, q) \<in> lexord {(i, j). i < j})"





text \<open>\<open>isinstance(v, list)\<close> and \<open>isinstance(v, dict)\<close>.\<close>

fun is_list :: "json \<Rightarrow> bool" where
  "is_list (JArray xs) = True"
| "is_list v = False"

fun is_dict :: "json \<Rightarrow> bool" where
  "is_dict (JObject d) = True"
| "is_dict v = False"

text \<open>A parameter resolves when its value yields a sequence.\<close>

definition resolves :: "env \<Rightarrow> string \<times> json \<Rightarrow> bool" where
  "resolves env p = (case resolve_range env (snd p) of Inl e \<Rightarrow> False | Inr r \<Rightarrow> True)"

text \<open>
  An environment for concrete runs: the libraries refuse what is left to them, the
  scheduler accepts every script.
\<close>

definition env0 :: env where
  "env0 = \<lparr>arange_other = (\<lambda>a b c. Inl ''unsupported''),
           eq_other = (\<lambda>a b. False),
           str_other = (\<lambda>v. []),
           today = ''06/11/2026'',
           git_hexsha = Inr ''4f2a'',
           sbatch = (\<lambda>script. Inr (0, ''Submitted batch job 12345''))\<rparr>"

text \<open>A machine with nothing on it, one that holds a single file, one that holds the files listed.\<close>

definition world0 :: world where
  "world0 = \<lparr>files = Map.empty, listdir = (\<lambda>dir. []), made_dirs = [], modes = [], printed = []\<rparr>"

definition world_with :: "string \<Rightarrow> filedata \<Rightarrow> world" where
  "world_with path content = world0\<lparr>files := [path \<mapsto> content]\<rparr>"

definition world_of_files :: "(string \<times> filedata) list \<Rightarrow> world" where
  "world_of_files contents = world0\<lparr>files := map_of contents\<rparr>"

section \<open>Dictionaries: lemmas\<close>

lemma dict_setitem_fresh: "k \<notin> fst ` set d \<Longrightarrow> dict_setitem d k v = d @ [(k, v)]"
  by (induction d) auto

lemma dict_update_distinct:
  "distinct (map fst ps) \<Longrightarrow> fst ` set d \<inter> fst ` set ps = {} \<Longrightarrow> dict_update d ps = d @ ps"
  unfolding dict_update_def
proof (induction ps arbitrary: d)
  case Nil then show ?case by simp
next
  case (Cons p ps)
  obtain k v where p: "p = (k, v)" by (cases p)
  have "dict_setitem d k v = d @ [(k, v)]" using Cons.prems p by (intro dict_setitem_fresh) auto
  moreover have "distinct (map fst ps)" using Cons.prems by simp
  moreover have "fst ` set (d @ [(k, v)]) \<inter> fst ` set ps = {}" using Cons.prems p by auto
  ultimately show ?case using Cons.IH[of "d @ [(k, v)]"] p by simp
qed

lemma py_dict_distinct: "distinct (map fst ps) \<Longrightarrow> py_dict ps = ps"
  unfolding py_dict_def by (simp add: dict_update_distinct)

lemma dict_getitem_member:
  "distinct (map fst d) \<Longrightarrow> (k, v) \<in> set d \<Longrightarrow> dict_getitem d k = Inr v"
  by (simp add: dict_getitem_def)

section \<open>The Parameter Expander: lemmas\<close>

lemma append_snoc_fun: "(@) (a @ [x]) = (\<lambda>c. a @ x # c)"
  by (simp add: fun_eq_iff)

lemma product_fold_gen:
  "foldl (\<lambda>result pool. concat (map (\<lambda>x. map (\<lambda>y. x @ [y]) pool) result)) acc pools
   = concat (map (\<lambda>a. map (\<lambda>c. a @ c) (product_lists pools)) acc)"
proof (induction pools arbitrary: acc)
  case Nil
  show ?case by (induction acc) simp_all
next
  case (Cons pool pools)
  have "concat (map (\<lambda>a. map ((@) a) (product_lists pools))
                 (concat (map (\<lambda>x. map (\<lambda>y. x @ [y]) pool) acc)))
        = concat (map (\<lambda>a. map ((@) a) (product_lists (pool # pools))) acc)"
    by (induction acc) (simp_all add: map_concat comp_def append_snoc_fun)
  then show ?case by (simp add: Cons.IH)
qed

lemma itertools_product_eq: "itertools_product pools = product_lists pools"
proof -
  have "(@) ([]::'a list) = (\<lambda>c. c)" by (simp add: fun_eq_iff)
  then show ?thesis unfolding itertools_product_def by (simp add: product_fold_gen)
qed

lemma param_ranges_loop_resolve_all:
  "distinct (map fst d) \<Longrightarrow> set ps \<subseteq> set d \<Longrightarrow>
   param_ranges_loop env d (map fst ps) acc =
     (case resolve_all env (map snd ps) of Inl e \<Rightarrow> Inl e | Inr rs \<Rightarrow> Inr (acc @ rs))"
proof (induction ps arbitrary: acc)
  case Nil
  then show ?case by simp
next
  case (Cons p ps)
  obtain k v where p: "p = (k, v)" by (cases p)
  have get: "dict_getitem d k = Inr v"
    using Cons.prems p by (intro dict_getitem_member) auto
  have sub: "set ps \<subseteq> set d" using Cons.prems by simp
  show ?case
    using Cons.IH[OF Cons.prems(1) sub] get p
    by (simp split: sum.splits)
qed

lemma resolve_all_Inr_iff:
  "resolve_all env vs = Inr rs \<longleftrightarrow> map (resolve_range env) vs = map Inr rs"
proof (induction vs arbitrary: rs)
  case Nil
  then show ?case by auto
next
  case (Cons v vs)
  show ?case
  proof (cases rs)
    case Nil
    then show ?thesis by (simp split: sum.splits)
  next
    case (Cons r rs')
    then show ?thesis using Cons.IH[of rs'] by (auto split: sum.splits)
  qed
qed

lemma resolve_all_first_error:
  "\<forall>x \<in> set pre. \<exists>r. resolve_range env x = Inr r \<Longrightarrow> resolve_range env v = Inl e \<Longrightarrow>
   resolve_all env (pre @ v # post) = Inl e"
proof (induction pre)
  case Nil
  then show ?case by simp
next
  case (Cons x pre)
  then show ?case by (auto split: sum.splits)
qed

lemma resolve_all_Inr_all:
  "resolve_all env vs = Inr rs \<Longrightarrow> v \<in> set vs \<Longrightarrow> \<exists>r. resolve_range env v = Inr r"
proof (induction vs arbitrary: rs)
  case Nil
  then show ?case by simp
next
  case (Cons x vs)
  then show ?case by (auto split: sum.splits)
qed

lemma add_array_parameters_resolve_all:
  assumes "distinct (dict_keys d)"
  shows "add_array_parameters env (JObject d) =
     (case resolve_all env (map snd d) of
        Inl e \<Rightarrow> Inl e
      | Inr rs \<Rightarrow> Inr (map (\<lambda>c. py_dict (zip (dict_keys d) c)) (product_lists rs)))"
  using assms param_ranges_loop_resolve_all[of d d env "[]"]
  by (simp add: dict_keys_def itertools_product_eq split: sum.splits)

lemma product_lists_length: "c \<in> set (product_lists xss) \<Longrightarrow> length c = length xss"
  by (simp add: in_set_product_lists_length)

lemma resolve_all_length: "resolve_all env vs = Inr rs \<Longrightarrow> length rs = length vs"
  by (metis resolve_all_Inr_iff length_map)

lemma zip_keys_combination:
  assumes "distinct ks" "length c = length ks"
  shows "py_dict (zip ks c) = zip ks c"
  using assms by (intro py_dict_distinct) simp

lemma length_product_lists_prod: "length (product_lists xss) = prod_list (map length xss)"
  by (induction xss) (simp_all add: length_concat comp_def sum_list_triv)

lemma distinct_product_lists_all: "\<forall>xs \<in> set xss. distinct xs \<Longrightarrow> distinct (product_lists xss)"
  by (rule distinct_product_lists) simp

lemma inj_on_zip_keys: "inj_on (zip ks) {c. length c = length ks}"
  by (rule inj_onI) (metis (mono_tags, lifting) map_snd_zip mem_Collect_eq)

lemma pick_Cons: "pick (pool # pools) (i # p) = pool ! i # pick pools p"
  by (simp add: pick_def)

lemma product_lists_pick: "product_lists pools = map (pick pools) (positions pools)"
proof (induction pools)
  case Nil
  show ?case by (simp add: positions_def pick_def)
next
  case (Cons pool pools)
  have "map (pick (pool # pools)) (positions (pool # pools))
      = concat (map (\<lambda>i. map ((#) (pool ! i)) (map (pick pools) (positions pools))) [0..<length pool])"
    by (simp add: positions_def map_concat comp_def pick_Cons)
  also have "\<dots> = concat (map (\<lambda>x. map ((#) x) (product_lists pools)) (map ((!) pool) [0..<length pool]))"
    by (simp add: Cons.IH comp_def)
  also have "\<dots> = product_lists (pool # pools)"
    by (simp add: map_nth)
  finally show ?case by simp
qed

lemma sorted_wrt_Cons_blocks:
  assumes "sorted_wrt (<) xs" and "sorted_wrt lex_less P"
  shows "sorted_wrt lex_less (concat (map (\<lambda>x. map ((#) x) P) xs))"
  using assms(1)
proof (induction xs)
  case Nil
  show ?case by simp
next
  case (Cons x xs)
  have block: "sorted_wrt lex_less (map ((#) x) P)"
    using assms(2) by (simp add: sorted_wrt_map lex_less_def[abs_def])
  have rest: "sorted_wrt lex_less (concat (map (\<lambda>x. map ((#) x) P) xs))"
    using Cons by simp
  have cross: "\<forall>a \<in> set (map ((#) x) P). \<forall>b \<in> set (concat (map (\<lambda>x. map ((#) x) P) xs)). lex_less a b"
    using Cons.prems by (auto simp: lex_less_def)
  show ?case using block rest cross by (simp add: sorted_wrt_append)
qed

lemma product_lists_sorted:
  "\<forall>xs \<in> set xss. sorted_wrt (<) xs \<Longrightarrow> sorted_wrt lex_less (product_lists xss)"
proof (induction xss)
  case Nil
  show ?case by simp
next
  case (Cons xs xss)
  then show ?case by (simp add: sorted_wrt_Cons_blocks)
qed

lemma sorted_positions: "sorted_wrt lex_less (positions pools)"
  unfolding positions_def by (rule product_lists_sorted) auto



section \<open>The Parameter Expander: the cross product\<close>

text \<open>
  C1, as amended. Let the keys of a Range Specification be distinct and let every
  parameter resolve to a value sequence (explicit lists always do). Then
  \<open>add_array_parameters\<close> returns the cross product of the sequences, each combination
  paired with the parameter names in declared order: its length is the product of the
  lengths of the sequences; a combination is returned exactly when it takes one value
  from each sequence (none is omitted); no combination is repeated provided no sequence
  repeats a value; and the combinations come in the lexicographic product order, that
  is, they are read off at positions that increase lexicographically, the first
  parameter varying slowest.
\<close>

theorem add_array_parameters_cross_product:
  assumes keys: "distinct (dict_keys d)"
    and res: "map (\<lambda>(k, v). resolve_range env v) d = map Inr ranges"
  shows "add_array_parameters env (JObject d) = Inr (map (zip (dict_keys d)) (product_lists ranges))
     \<and> length (map (zip (dict_keys d)) (product_lists ranges)) = prod_list (map length ranges)
     \<and> set (map (zip (dict_keys d)) (product_lists ranges))
         = {zip (dict_keys d) c | c. list_all2 (\<lambda>x r. x \<in> set r) c ranges}
     \<and> (list_all distinct ranges \<longrightarrow> distinct (map (zip (dict_keys d)) (product_lists ranges)))
     \<and> map (zip (dict_keys d)) (product_lists ranges)
         = map (\<lambda>p. zip (dict_keys d) (pick ranges p)) (positions ranges)
     \<and> sorted_wrt lex_less (positions ranges)"
proof -
  have "map (resolve_range env) (map snd d) = map Inr ranges"
    using res by (simp add: case_prod_unfold comp_def)
  then have ra: "resolve_all env (map snd d) = Inr ranges"
    by (simp add: resolve_all_Inr_iff)
  have len: "length ranges = length (dict_keys d)"
    using resolve_all_length[OF ra] by (simp add: dict_keys_def)
  have zipeq: "map (\<lambda>c. py_dict (zip (dict_keys d) c)) (product_lists ranges)
      = map (zip (dict_keys d)) (product_lists ranges)"
    using keys len by (intro map_cong refl zip_keys_combination) (simp_all add: product_lists_length)
  have eq: "add_array_parameters env (JObject d) = Inr (map (zip (dict_keys d)) (product_lists ranges))"
    using add_array_parameters_resolve_all[OF keys, of env] ra zipeq by simp
  have inj: "inj_on (zip (dict_keys d)) (set (product_lists ranges))"
    using len by (intro inj_on_subset[OF inj_on_zip_keys]) (auto simp: product_lists_length)
  have dist: "list_all distinct ranges \<longrightarrow> distinct (map (zip (dict_keys d)) (product_lists ranges))"
    using inj by (auto simp: distinct_map list_all_iff intro: distinct_product_lists_all)
  have st: "set (map (zip (dict_keys d)) (product_lists ranges))
     = {zip (dict_keys d) c | c. list_all2 (\<lambda>x r. x \<in> set r) c ranges}"
    by (auto simp: product_lists_set)
  have ord: "map (zip (dict_keys d)) (product_lists ranges)
         = map (\<lambda>p. zip (dict_keys d) (pick ranges p)) (positions ranges)"
    by (subst product_lists_pick) (simp add: comp_def)
  have len2: "length (map (zip (dict_keys d)) (product_lists ranges)) = prod_list (map length ranges)"
    by (simp add: length_product_lists_prod)
  have sp: "sorted_wrt lex_less (positions ranges)"
    by (rule sorted_positions)
  show ?thesis
    by (intro conjI eq len2 st dist ord sp)
qed

text \<open>The theorem at a specification of two explicit lists.\<close>

theorem add_array_parameters_cross_product_witness:
  "add_array_parameters env0
     (JObject [(''a'', JArray [JInt 1, JInt 2]), (''b'', JArray [JString ''x'', JString ''y''])])
   = Inr [[(''a'', JInt 1), (''b'', JString ''x'')], [(''a'', JInt 1), (''b'', JString ''y'')],
          [(''a'', JInt 2), (''b'', JString ''x'')], [(''a'', JInt 2), (''b'', JString ''y'')]]
   \<and> positions [[JInt 1, JInt 2], [JString ''x'', JString ''y'']] = [[0, 0], [0, 1], [1, 0], [1, 1]]"
proof -
  have keys: "distinct (dict_keys [(''a'', JArray [JInt 1, JInt 2]), (''b'', JArray [JString ''x'', JString ''y''])])"
    by (simp add: dict_keys_def)
  have res: "map (\<lambda>(k, v). resolve_range env0 v)
       [(''a'', JArray [JInt 1, JInt 2]), (''b'', JArray [JString ''x'', JString ''y''])]
     = map Inr [[JInt 1, JInt 2], [JString ''x'', JString ''y'']]"
    by simp
  have pos: "positions [[JInt 1, JInt 2], [JString ''x'', JString ''y'']] = [[0, 0], [0, 1], [1, 0], [1, 1]]"
    by (simp add: positions_def upt_rec)
  have rhs: "map (zip (dict_keys [(''a'', JArray [JInt 1, JInt 2]), (''b'', JArray [JString ''x'', JString ''y''])]))
        (product_lists [[JInt 1, JInt 2], [JString ''x'', JString ''y'']])
      = [[(''a'', JInt 1), (''b'', JString ''x'')], [(''a'', JInt 1), (''b'', JString ''y'')],
         [(''a'', JInt 2), (''b'', JString ''x'')], [(''a'', JInt 2), (''b'', JString ''y'')]]"
    by (simp add: dict_keys_def)
  have "add_array_parameters env0
     (JObject [(''a'', JArray [JInt 1, JInt 2]), (''b'', JArray [JString ''x'', JString ''y''])])
   = Inr (map (zip (dict_keys [(''a'', JArray [JInt 1, JInt 2]), (''b'', JArray [JString ''x'', JString ''y''])]))
        (product_lists [[JInt 1, JInt 2], [JString ''x'', JString ''y'']]))"
    using add_array_parameters_cross_product[OF keys res] by (rule conjunct1)
  then show ?thesis
    unfolding rhs using pos by (intro conjI)
qed

text \<open>
  C1 as stated fails: a specification is valid whatever its lists hold, and a list that
  repeats a value gives the same combination twice.
\<close>

theorem add_array_parameters_repeats_values:
  "add_array_parameters env0 (JObject [(''a'', JArray [JInt 1, JInt 1])])
     = Inr [[(''a'', JInt 1)], [(''a'', JInt 1)]]
   \<and> \<not> distinct [[(''a'', JInt 1)], [(''a'', JInt 1)]]"
  by (simp add: dict_keys_def dict_getitem_def itertools_product_def py_dict_def dict_update_def)


section \<open>The Parameter Expander: range descriptors\<close>

lemma arange_int_nth:
  "i < arange_len a b s \<Longrightarrow> arange_int a b s ! i = a + int i * s"
  by (simp add: arange_int_def)








section \<open>The Run Directory Allocator: the next number\<close>






section \<open>The Metadata Recorder: the update merges\<close>










section \<open>The Job Submitter\<close>

text \<open>Stripping the output first changes nothing for the words it splits into.\<close>

lemma split_from_leading: "split_from [] (dropWhile is_space s) = split_from [] s"
  by (induction s) simp_all

lemma split_from_spaces: "list_all is_space ws \<Longrightarrow> split_from cur ws = (if cur = [] then [] else [cur])"
  by (induction ws arbitrary: cur) simp_all

lemma split_from_trailing: "list_all is_space ws \<Longrightarrow> split_from cur (t @ ws) = split_from cur t"
  by (induction t arbitrary: cur) (simp_all add: split_from_spaces)

lemma py_split_strip: "py_split (py_strip s) = py_split s"
proof -
  let ?t = "dropWhile is_space s"
  have "?t = rev (dropWhile is_space (rev ?t)) @ rev (takeWhile is_space (rev ?t))"
    by (metis rev_append rev_rev_ident takeWhile_dropWhile_id)
  moreover have "list_all is_space (rev (takeWhile is_space (rev ?t)))"
    by (simp add: list_all_iff) (meson set_takeWhileD)
  ultimately have "split_from [] ?t = split_from [] (rev (dropWhile is_space (rev ?t)))"
    by (metis split_from_trailing)
  then show ?thesis
    by (simp add: py_split_def py_strip_def split_from_leading)
qed

text \<open>
  C5, as amended. \<open>submit_job\<close> takes the last white-space-delimited word of the
  command's standard output as the job identifier and calls the update with
  \<open>{job_id: identifier}\<close>, whatever the exit status of the command. It fails without
  attempting an update, the state left as it was, exactly when the command cannot be
  started or its output holds no word at all.
\<close>

theorem submit_job_last_token:
  "(sbatch env script = Inl e \<longrightarrow> submit_job env w script path = (Inl e, w))
   \<and> (sbatch env script = Inr (returncode, out) \<and> py_split out = []
        \<longrightarrow> submit_job env w script path = (Inl IndexError, w))
   \<and> (sbatch env script = Inr (returncode, out) \<and> py_split out \<noteq> []
        \<longrightarrow> submit_job env w script path
            = update_metadata w path [(''job_id'', JString (last (py_split out)))])"
  by (simp add: submit_job_def py_split_strip Let_def)

text \<open>
  The theorem at a successful submission, at a machine without the command, and at an
  output of white space only.
\<close>

theorem submit_job_last_token_witness:
  "submit_job env0
     (world_with ''out/run_1/metadata.json''
        (JsonText (JObject [(''job_information'', JObject [(''job_id'', JNull), (''state'', JNull)])])))
     ''out/run_1/job_script.sh'' ''out/run_1/metadata.json''
   = (Inr (),
      (world_with ''out/run_1/metadata.json''
        (JsonText (JObject [(''job_information'', JObject [(''job_id'', JNull), (''state'', JNull)])])))
      \<lparr>files := [''out/run_1/metadata.json'' \<mapsto>
          JsonText (JObject [(''job_information'',
            JObject [(''job_id'', JString ''12345''), (''state'', JNull)])])]\<rparr>)
   \<and> submit_job (env0\<lparr>sbatch := (\<lambda>script. Inl (FileNotFoundError ''sbatch''))\<rparr>) world0
       ''out/run_1/job_script.sh'' ''out/run_1/metadata.json''
     = (Inl (FileNotFoundError ''sbatch''), world0)
   \<and> submit_job (env0\<lparr>sbatch := (\<lambda>script. Inr (1, '' ''))\<rparr>) world0
       ''out/run_1/job_script.sh'' ''out/run_1/metadata.json''
     = (Inl IndexError, world0)"
proof -
  let ?w = "world_with ''out/run_1/metadata.json''
        (JsonText (JObject [(''job_information'', JObject [(''job_id'', JNull), (''state'', JNull)])]))"
  have run: "sbatch env0 ''out/run_1/job_script.sh'' = Inr (0, ''Submitted batch job 12345'')"
    by (simp add: env0_def)
  have tokens: "py_split ''Submitted batch job 12345'' = [''Submitted'', ''batch'', ''job'', ''12345'']"
    by code_simp
  have some: "sbatch env0 ''out/run_1/job_script.sh'' = Inr (0, ''Submitted batch job 12345'')
      \<and> py_split ''Submitted batch job 12345'' \<noteq> []"
    using run tokens by simp
  have "submit_job env0 ?w ''out/run_1/job_script.sh'' ''out/run_1/metadata.json''
      = update_metadata ?w ''out/run_1/metadata.json''
          [(''job_id'', JString (last (py_split ''Submitted batch job 12345'')))]"
    by (rule submit_job_last_token
          [THEN conjunct2, THEN conjunct2, rule_format, OF some])
  also have "\<dots> = (Inr (), ?w\<lparr>files := [''out/run_1/metadata.json'' \<mapsto>
          JsonText (JObject [(''job_information'',
            JObject [(''job_id'', JString ''12345''), (''state'', JNull)])])]\<rparr>)"
    unfolding tokens
    by (simp add: update_metadata_def load_json_def world_with_def world0_def dict_contains_def
          dict_keys_def dict_getitem_def dict_update_def dump_json_def)
  finally have ok: "submit_job env0 ?w ''out/run_1/job_script.sh'' ''out/run_1/metadata.json''
      = (Inr (), ?w\<lparr>files := [''out/run_1/metadata.json'' \<mapsto>
          JsonText (JObject [(''job_information'',
            JObject [(''job_id'', JString ''12345''), (''state'', JNull)])])]\<rparr>)" .
  have absent: "sbatch (env0\<lparr>sbatch := (\<lambda>script. Inl (FileNotFoundError ''sbatch''))\<rparr>)
       ''out/run_1/job_script.sh'' = Inl (FileNotFoundError ''sbatch'')"
    by simp
  have blank: "sbatch (env0\<lparr>sbatch := (\<lambda>script. Inr (1, '' ''))\<rparr>) ''out/run_1/job_script.sh''
       = Inr (1, '' '') \<and> py_split '' '' = []"
    by (simp add: py_split_def is_space_def)
  show ?thesis
    by (intro conjI ok
          submit_job_last_token [THEN conjunct1, rule_format, OF absent]
          submit_job_last_token [THEN conjunct2, THEN conjunct1, rule_format, OF blank])
qed

text \<open>
  C5 as stated fails: the exit status is never inspected. A command that exits with
  status 1 and prints \<open>error\<close> has that word recorded as the job identifier.
\<close>

theorem submit_job_updates_after_failure:
  "submit_job (env0\<lparr>sbatch := (\<lambda>script. Inr (1, ''error''))\<rparr>)
     (world_with ''out/run_1/metadata.json''
        (JsonText (JObject [(''job_information'', JObject [(''job_id'', JNull)])])))
     ''out/run_1/job_script.sh'' ''out/run_1/metadata.json''
   = (Inr (),
      (world_with ''out/run_1/metadata.json''
        (JsonText (JObject [(''job_information'', JObject [(''job_id'', JNull)])])))
      \<lparr>files := [''out/run_1/metadata.json'' \<mapsto>
          JsonText (JObject [(''job_information'', JObject [(''job_id'', JString ''error'')])])]\<rparr>)"
proof -
  have tokens: "py_split (py_strip ''error'') = [''error'']"
    by code_simp
  show ?thesis
    by (simp add: submit_job_def tokens update_metadata_def load_json_def world_with_def world0_def
          dict_contains_def dict_keys_def dict_getitem_def dict_update_def dump_json_def)
qed


section \<open>The preparation run: where it stops\<close>

lemma argv_three:
  "length [prog, parameter_path, python_script_path] = 3"
  "[prog, parameter_path, python_script_path] ! 1 = parameter_path"
  "[prog, parameter_path, python_script_path] ! 2 = python_script_path"
  by simp_all

lemma prepare_different_directories:
  assumes "load_json w (path_join parameter_path ''range_array_params.json'') = Inr range_array_params"
    and "load_json w (path_join parameter_path ''simul_params.json'') = Inr simul_params"
    and "load_json w (path_join parameter_path ''slurm_params.json'') = Inr slurm_params"
    and "load_json w (path_join parameter_path ''other_params.json'') = Inr other_params"
    and "py_getitem slurm_params ''output_directory'' = Inr a"
    and "py_getitem simul_params ''output_directory'' = Inr b"
    and "\<not> py_eq env a b"
  shows "prepare env w [prog, parameter_path, python_script_path]
       = (Inl (ValueError ''Output directories are different.''), w)"
  unfolding prepare_def argv_three Let_def using assms by simp

lemma prepare_expander_fails:
  assumes "load_json w (path_join parameter_path ''range_array_params.json'') = Inr range_array_params"
    and "load_json w (path_join parameter_path ''simul_params.json'') = Inr simul_params"
    and "load_json w (path_join parameter_path ''slurm_params.json'') = Inr slurm_params"
    and "load_json w (path_join parameter_path ''other_params.json'') = Inr other_params"
    and "py_getitem slurm_params ''output_directory'' = Inr a"
    and "py_getitem simul_params ''output_directory'' = Inr b"
    and "py_eq env a b"
    and "add_array_parameters env range_array_params = Inl e"
  shows "prepare env w [prog, parameter_path, python_script_path] = (Inl e, w)"
  unfolding prepare_def argv_three Let_def using assms by simp

text \<open>Up to the expansion, a run that fails has changed nothing.\<close>

lemma prepare_unchanged_before_expansion:
  assumes "add_array_parameters env range_array_params = Inl e"
    and "load_json w (path_join parameter_path ''range_array_params.json'') = Inr range_array_params"
  shows "\<exists>e'. prepare env w [prog, parameter_path, python_script_path] = (Inl e', w)"
proof -
  let ?run = "prepare env w [prog, parameter_path, python_script_path]"
  show ?thesis
  proof (cases "load_json w (path_join parameter_path ''simul_params.json'')")
    case (Inl x)
    then show ?thesis unfolding prepare_def argv_three Let_def using assms by simp
  next
    case simul: (Inr simul_params)
    show ?thesis
    proof (cases "load_json w (path_join parameter_path ''slurm_params.json'')")
      case (Inl x)
      then show ?thesis unfolding prepare_def argv_three Let_def using assms simul by simp
    next
      case slurm: (Inr slurm_params)
      show ?thesis
      proof (cases "load_json w (path_join parameter_path ''other_params.json'')")
        case (Inl x)
        then show ?thesis unfolding prepare_def argv_three Let_def using assms simul slurm by simp
      next
        case other: (Inr other_params)
        show ?thesis
        proof (cases "py_getitem slurm_params ''output_directory''")
          case (Inl x)
          then show ?thesis
            unfolding prepare_def argv_three Let_def using assms simul slurm other by simp
        next
          case a: (Inr a)
          show ?thesis
          proof (cases "py_getitem simul_params ''output_directory''")
            case (Inl x)
            then show ?thesis
              unfolding prepare_def argv_three Let_def using assms simul slurm other a by simp
          next
            case b: (Inr b)
            show ?thesis
            proof (cases "py_eq env a b")
              case True
              then show ?thesis
                using prepare_expander_fails[OF assms(2) simul slurm other a b True assms(1)]
                by simp
            next
              case False
              then show ?thesis
                using prepare_different_directories[OF assms(2) simul slurm other a b False]
                by simp
            qed
          qed
        qed
      qed
    qed
  qed
qed

lemma prepare_unchanged_different_directories:
  assumes "load_json w (path_join parameter_path ''simul_params.json'') = Inr simul_params"
    and "load_json w (path_join parameter_path ''slurm_params.json'') = Inr slurm_params"
    and "py_getitem slurm_params ''output_directory'' = Inr a"
    and "py_getitem simul_params ''output_directory'' = Inr b"
    and "\<not> py_eq env a b"
  shows "\<exists>e. prepare env w [prog, parameter_path, python_script_path] = (Inl e, w)"
proof (cases "load_json w (path_join parameter_path ''range_array_params.json'')")
  case (Inl x)
  then show ?thesis unfolding prepare_def argv_three Let_def by simp
next
  case range: (Inr range_array_params)
  show ?thesis
  proof (cases "load_json w (path_join parameter_path ''other_params.json'')")
    case (Inl x)
    then show ?thesis unfolding prepare_def argv_three Let_def using assms range by simp
  next
    case other: (Inr other_params)
    show ?thesis
      using prepare_different_directories[OF range assms(1) assms(2) other assms(3) assms(4) assms(5)]
      by simp
  qed
qed


section \<open>The Parameter Expander: failures\<close>

lemma resolve_all_Inl_source:
  "resolve_all env vs = Inl e \<Longrightarrow> \<exists>v \<in> set vs. resolve_range env v = Inl e"
proof (induction vs)
  case Nil
  then show ?case by simp
next
  case (Cons x vs)
  then show ?case by (auto split: sum.splits)
qed

lemma resolve_all_member_fails:
  assumes "v \<in> set vs" and "resolve_range env v = Inl e"
  shows "\<exists>e'. resolve_all env vs = Inl e'"
proof (cases "resolve_all env vs")
  case (Inl e')
  then show ?thesis by simp
next
  case (Inr rs)
  then show ?thesis using resolve_all_Inr_all[OF Inr assms(1)] assms(2) by simp
qed

lemma add_array_parameters_member_fails:
  assumes "distinct (dict_keys d)" and "(k, v) \<in> set d" and "resolve_range env v = Inl e"
  shows "\<exists>e'. add_array_parameters env (JObject d) = Inl e'"
proof -
  have "v \<in> set (map snd d)" using assms(2) by force
  then obtain e' where "resolve_all env (map snd d) = Inl e'"
    using resolve_all_member_fails assms(3) by blast
  then show ?thesis
    unfolding add_array_parameters_resolve_all[OF assms(1)] by simp
qed

lemma resolves_iff: "resolves env p \<longleftrightarrow> (\<exists>r. resolve_range env (snd p) = Inr r)"
  by (cases "resolve_range env (snd p)") (simp_all add: resolves_def)

lemma add_array_parameters_first_failure:
  assumes "distinct (dict_keys d)" and "d = pre @ (k, v) # post"
    and "list_all (resolves env) pre" and "resolve_range env v = Inl e"
  shows "add_array_parameters env (JObject d) = Inl e"
proof -
  have "\<forall>x \<in> set (map snd pre). \<exists>r. resolve_range env x = Inr r"
    using assms(3) by (auto simp: list_all_iff resolves_iff)
  then have "resolve_all env (map snd pre @ v # map snd post) = Inl e"
    using assms(4) by (rule resolve_all_first_error)
  then show ?thesis
    unfolding add_array_parameters_resolve_all[OF assms(1)] by (simp add: assms(2))
qed

lemma add_array_parameters_error_source:
  assumes "distinct (dict_keys d)" and "add_array_parameters env (JObject d) = Inl e"
  shows "\<exists>p \<in> set d. resolve_range env (snd p) = Inl e"
proof -
  have "resolve_all env (map snd d) = Inl e"
    using assms(2) unfolding add_array_parameters_resolve_all[OF assms(1)]
    by (simp split: sum.splits)
  then show ?thesis using resolve_all_Inl_source by fastforce
qed

lemma resolve_range_invalid_shape:
  "\<not> is_list v \<Longrightarrow> \<not> is_dict v \<Longrightarrow> resolve_range env v = Inl (ValueError ''Invalid range type'')"
  by (cases v) simp_all

lemma np_arange_not_ValueError: "np_arange env a b c \<noteq> Inl (ValueError msg)"
  by (cases "(env, a, b, c)" rule: np_arange.cases) (simp_all add: from_library_def split: sum.splits)

lemma resolve_range_ValueError_shape:
  "resolve_range env v = Inl (ValueError msg) \<Longrightarrow> \<not> is_list v \<and> \<not> is_dict v"
  by (cases v) (auto simp: dict_getitem_def np_arange_not_ValueError split: sum.splits option.splits)

lemma dict_getitem_contains:
  "dict_getitem m key = (if dict_contains m key then Inr (the (map_of m key)) else Inl (KeyError key))"
  by (auto simp: dict_getitem_def dict_contains_def dict_keys_def map_of_eq_None_iff[symmetric]
        split: option.splits)

lemma resolve_range_missing_key:
  assumes "\<not> (dict_contains m ''start'' \<and> dict_contains m ''end'' \<and> dict_contains m ''step'')"
  shows "resolve_range env (JObject m) =
    Inl (KeyError (if \<not> dict_contains m ''start'' then ''start''
                   else if \<not> dict_contains m ''end'' then ''end'' else ''step''))"
  using assms by (auto simp: dict_getitem_contains)

text \<open>
  C6, as amended. Let some parameter of a Range Specification have a value that is
  neither a list nor a dictionary (a string, say). Then the Parameter Expander fails. It
  fails with the validation error \<open>Invalid range type\<close> when every parameter declared
  before that one resolves; otherwise the failure of an earlier parameter is what it
  raises. In every case the preparation run ends with an error and leaves the machine as
  it found it: no directory is made, no script and no combination list is written. When
  the other parameter files load and agree on the output directory, the error of the run
  is that validation error.
\<close>

theorem invalid_shape_stops_preparation:
  assumes keys: "distinct (dict_keys d)"
    and decomp: "d = pre @ (k, v) # post"
    and shape: "\<not> is_list v" "\<not> is_dict v"
    and rfile: "load_json w (path_join parameter_path ''range_array_params.json'') = Inr (JObject d)"
  shows "(\<exists>e. add_array_parameters env (JObject d) = Inl e)
     \<and> (list_all (resolves env) pre
          \<longrightarrow> add_array_parameters env (JObject d) = Inl (ValueError ''Invalid range type''))
     \<and> (\<exists>e. prepare env w [prog, parameter_path, python_script_path] = (Inl e, w))
     \<and> (list_all (resolves env) pre
          \<and> load_json w (path_join parameter_path ''simul_params.json'') = Inr simul_params
          \<and> load_json w (path_join parameter_path ''slurm_params.json'') = Inr slurm_params
          \<and> load_json w (path_join parameter_path ''other_params.json'') = Inr other_params
          \<and> py_getitem slurm_params ''output_directory'' = Inr a
          \<and> py_getitem simul_params ''output_directory'' = Inr b
          \<and> py_eq env a b
          \<longrightarrow> prepare env w [prog, parameter_path, python_script_path]
                = (Inl (ValueError ''Invalid range type''), w))"
proof -
  have bad: "resolve_range env v = Inl (ValueError ''Invalid range type'')"
    using shape by (rule resolve_range_invalid_shape)
  have mem: "(k, v) \<in> set d" using decomp by simp
  obtain e where fails: "add_array_parameters env (JObject d) = Inl e"
    using add_array_parameters_member_fails[OF keys mem bad] by (elim exE)
  have c1: "\<exists>e. add_array_parameters env (JObject d) = Inl e"
    using fails by (intro exI)
  have c2: "list_all (resolves env) pre
          \<longrightarrow> add_array_parameters env (JObject d) = Inl (ValueError ''Invalid range type'')"
    using add_array_parameters_first_failure[OF keys decomp _ bad] by (intro impI)
  have c3: "\<exists>e. prepare env w [prog, parameter_path, python_script_path] = (Inl e, w)"
    using fails rfile by (rule prepare_unchanged_before_expansion)
  have c4: "list_all (resolves env) pre
          \<and> load_json w (path_join parameter_path ''simul_params.json'') = Inr simul_params
          \<and> load_json w (path_join parameter_path ''slurm_params.json'') = Inr slurm_params
          \<and> load_json w (path_join parameter_path ''other_params.json'') = Inr other_params
          \<and> py_getitem slurm_params ''output_directory'' = Inr a
          \<and> py_getitem simul_params ''output_directory'' = Inr b
          \<and> py_eq env a b
          \<longrightarrow> prepare env w [prog, parameter_path, python_script_path]
                = (Inl (ValueError ''Invalid range type''), w)"
  proof (intro impI, elim conjE)
    assume pre: "list_all (resolves env) pre"
      and simul: "load_json w (path_join parameter_path ''simul_params.json'') = Inr simul_params"
      and slurm: "load_json w (path_join parameter_path ''slurm_params.json'') = Inr slurm_params"
      and other: "load_json w (path_join parameter_path ''other_params.json'') = Inr other_params"
      and a: "py_getitem slurm_params ''output_directory'' = Inr a"
      and b: "py_getitem simul_params ''output_directory'' = Inr b"
      and eq: "py_eq env a b"
    have "add_array_parameters env (JObject d) = Inl (ValueError ''Invalid range type'')"
      using c2 pre by simp
    then show "prepare env w [prog, parameter_path, python_script_path]
                = (Inl (ValueError ''Invalid range type''), w)"
      by (rule prepare_expander_fails[OF rfile simul slurm other a b eq])
  qed
  show ?thesis
    by (intro conjI c1 c2 c3 c4)
qed

text \<open>The theorem at a run whose second parameter is a string.\<close>

theorem invalid_shape_stops_preparation_witness:
  "prepare env0
     (world_of_files
        [(''params/range_array_params.json'',
            JsonText (JObject [(''a'', JArray [JInt 1]), (''b'', JString ''x'')])),
         (''params/simul_params.json'', JsonText (JObject [(''output_directory'', JString ''out'')])),
         (''params/slurm_params.json'', JsonText (JObject [(''output_directory'', JString ''out'')])),
         (''params/other_params.json'', JsonText (JObject [(''description'', JString ''sweep'')]))])
     [''job_prepper.py'', ''params'', ''main.py'']
   = (Inl (ValueError ''Invalid range type''),
      world_of_files
        [(''params/range_array_params.json'',
            JsonText (JObject [(''a'', JArray [JInt 1]), (''b'', JString ''x'')])),
         (''params/simul_params.json'', JsonText (JObject [(''output_directory'', JString ''out'')])),
         (''params/slurm_params.json'', JsonText (JObject [(''output_directory'', JString ''out'')])),
         (''params/other_params.json'', JsonText (JObject [(''description'', JString ''sweep'')]))])"
proof -
  let ?d = "[(''a'', JArray [JInt 1]), (''b'', JString ''x'')]"
  let ?w = "world_of_files
        [(''params/range_array_params.json'', JsonText (JObject ?d)),
         (''params/simul_params.json'', JsonText (JObject [(''output_directory'', JString ''out'')])),
         (''params/slurm_params.json'', JsonText (JObject [(''output_directory'', JString ''out'')])),
         (''params/other_params.json'', JsonText (JObject [(''description'', JString ''sweep'')]))]"
  have keys: "distinct (dict_keys ?d)" by (simp add: dict_keys_def)
  have decomp: "?d = [(''a'', JArray [JInt 1])] @ (''b'', JString ''x'') # []" by simp
  have shape: "\<not> is_list (JString ''x'')" "\<not> is_dict (JString ''x'')" by simp_all
  have rfile: "load_json ?w (path_join ''params'' ''range_array_params.json'') = Inr (JObject ?d)"
    by (simp add: load_json_def world_of_files_def world0_def path_join_def startswith_def)
  have rest: "list_all (resolves env0) [(''a'', JArray [JInt 1])]
      \<and> load_json ?w (path_join ''params'' ''simul_params.json'')
          = Inr (JObject [(''output_directory'', JString ''out'')])
      \<and> load_json ?w (path_join ''params'' ''slurm_params.json'')
          = Inr (JObject [(''output_directory'', JString ''out'')])
      \<and> load_json ?w (path_join ''params'' ''other_params.json'')
          = Inr (JObject [(''description'', JString ''sweep'')])
      \<and> py_getitem (JObject [(''output_directory'', JString ''out'')]) ''output_directory''
          = Inr (JString ''out'')
      \<and> py_getitem (JObject [(''output_directory'', JString ''out'')]) ''output_directory''
          = Inr (JString ''out'')
      \<and> py_eq env0 (JString ''out'') (JString ''out'')"
    by (simp add: load_json_def world_of_files_def world0_def path_join_def startswith_def
          resolves_def dict_getitem_def)
  show ?thesis
    by (rule invalid_shape_stops_preparation
          [OF keys decomp shape rfile, THEN conjunct2, THEN conjunct2, THEN conjunct2,
           rule_format, OF rest])
qed

text \<open>
  C6 as stated fails: the parameters are resolved in declared order and the first
  failure is raised. Here \<open>b\<close> is a string, yet the error is the key-lookup error of
  \<open>a\<close>, whose value is itself neither a list nor a \<open>{start, end, step}\<close> object.
\<close>

theorem invalid_shape_other_error_first:
  "add_array_parameters env0
     (JObject [(''a'', JObject [(''start'', JInt 0), (''end'', JInt 5)]), (''b'', JString ''x'')])
   = Inl (KeyError ''step'')"
  by (simp add: dict_keys_def dict_getitem_def)

section \<open>The preparation run: the output directories\<close>

text \<open>
  C7. Let the scheduler and the simulation parameter files load and give different
  output directories. Then the preparation run fails and leaves the machine as it
  found it: no directory is made and \<open>array_params.json\<close> is not written. When the two
  other parameter files load as well, the error is the validation error
  \<open>Output directories are different.\<close>
\<close>

theorem prepare_rejects_different_directories:
  assumes simul: "load_json w (path_join parameter_path ''simul_params.json'') = Inr simul_params"
    and slurm: "load_json w (path_join parameter_path ''slurm_params.json'') = Inr slurm_params"
    and a: "py_getitem slurm_params ''output_directory'' = Inr a"
    and b: "py_getitem simul_params ''output_directory'' = Inr b"
    and differ: "\<not> py_eq env a b"
  shows "(\<exists>e. prepare env w [prog, parameter_path, python_script_path] = (Inl e, w))
     \<and> (load_json w (path_join parameter_path ''range_array_params.json'') = Inr range_array_params
          \<and> load_json w (path_join parameter_path ''other_params.json'') = Inr other_params
          \<longrightarrow> prepare env w [prog, parameter_path, python_script_path]
                = (Inl (ValueError ''Output directories are different.''), w))"
proof -
  have c1: "\<exists>e. prepare env w [prog, parameter_path, python_script_path] = (Inl e, w)"
    using simul slurm a b differ by (rule prepare_unchanged_different_directories)
  have c2: "load_json w (path_join parameter_path ''range_array_params.json'') = Inr range_array_params
          \<and> load_json w (path_join parameter_path ''other_params.json'') = Inr other_params
          \<longrightarrow> prepare env w [prog, parameter_path, python_script_path]
                = (Inl (ValueError ''Output directories are different.''), w)"
  proof (intro impI, elim conjE)
    assume range: "load_json w (path_join parameter_path ''range_array_params.json'') = Inr range_array_params"
      and other: "load_json w (path_join parameter_path ''other_params.json'') = Inr other_params"
    show "prepare env w [prog, parameter_path, python_script_path]
                = (Inl (ValueError ''Output directories are different.''), w)"
      using range simul slurm other a b differ by (rule prepare_different_directories)
  qed
  show ?thesis
    by (intro conjI c1 c2)
qed

text \<open>The theorem at four parameter files, the directories being \<open>results\<close> and \<open>out\<close>.\<close>

theorem prepare_rejects_different_directories_witness:
  "prepare env0
     (world_of_files
        [(''params/range_array_params.json'', JsonText (JObject [(''a'', JArray [JInt 1, JInt 2])])),
         (''params/simul_params.json'', JsonText (JObject [(''output_directory'', JString ''out'')])),
         (''params/slurm_params.json'', JsonText (JObject [(''output_directory'', JString ''results'')])),
         (''params/other_params.json'', JsonText (JObject [(''description'', JString ''sweep'')]))])
     [''job_prepper.py'', ''params'', ''main.py'']
   = (Inl (ValueError ''Output directories are different.''),
      world_of_files
        [(''params/range_array_params.json'', JsonText (JObject [(''a'', JArray [JInt 1, JInt 2])])),
         (''params/simul_params.json'', JsonText (JObject [(''output_directory'', JString ''out'')])),
         (''params/slurm_params.json'', JsonText (JObject [(''output_directory'', JString ''results'')])),
         (''params/other_params.json'', JsonText (JObject [(''description'', JString ''sweep'')]))])"
proof -
  let ?w = "world_of_files
        [(''params/range_array_params.json'', JsonText (JObject [(''a'', JArray [JInt 1, JInt 2])])),
         (''params/simul_params.json'', JsonText (JObject [(''output_directory'', JString ''out'')])),
         (''params/slurm_params.json'', JsonText (JObject [(''output_directory'', JString ''results'')])),
         (''params/other_params.json'', JsonText (JObject [(''description'', JString ''sweep'')]))]"
  have simul: "load_json ?w (path_join ''params'' ''simul_params.json'')
      = Inr (JObject [(''output_directory'', JString ''out'')])"
    by (simp add: load_json_def world_of_files_def world0_def path_join_def startswith_def)
  have slurm: "load_json ?w (path_join ''params'' ''slurm_params.json'')
      = Inr (JObject [(''output_directory'', JString ''results'')])"
    by (simp add: load_json_def world_of_files_def world0_def path_join_def startswith_def)
  have a: "py_getitem (JObject [(''output_directory'', JString ''results'')]) ''output_directory''
      = Inr (JString ''results'')"
    by (simp add: dict_getitem_def)
  have b: "py_getitem (JObject [(''output_directory'', JString ''out'')]) ''output_directory''
      = Inr (JString ''out'')"
    by (simp add: dict_getitem_def)
  have differ: "\<not> py_eq env0 (JString ''results'') (JString ''out'')"
    by simp
  have rest: "load_json ?w (path_join ''params'' ''range_array_params.json'')
        = Inr (JObject [(''a'', JArray [JInt 1, JInt 2])])
      \<and> load_json ?w (path_join ''params'' ''other_params.json'')
        = Inr (JObject [(''description'', JString ''sweep'')])"
    by (simp add: load_json_def world_of_files_def world0_def path_join_def startswith_def)
  show ?thesis
    by (rule prepare_rejects_different_directories
          [OF simul slurm a b differ, THEN conjunct2, rule_format, OF rest])
qed

section \<open>The Parameter Expander: a dictionary without its keys\<close>

text \<open>
  C10, as amended. A parameter whose value is a dictionary lacking \<open>start\<close>, \<open>end\<close> or
  \<open>step\<close> makes its resolution raise the key-lookup error of the first key missing (in
  that order), not the validation error. The Parameter Expander then fails, and it
  fails with that key-lookup error when every parameter declared before resolves;
  otherwise the failure of an earlier parameter is what it raises. The validation error
  \<open>Invalid range type\<close> is raised only for a value that is neither a list nor a
  dictionary.
\<close>

theorem missing_key_raises_key_error:
  assumes keys: "distinct (dict_keys d)"
    and decomp: "d = pre @ (k, JObject m) # post"
    and missing: "\<not> (dict_contains m ''start'' \<and> dict_contains m ''end'' \<and> dict_contains m ''step'')"
  shows "resolve_range env (JObject m)
       = Inl (KeyError (if \<not> dict_contains m ''start'' then ''start''
                        else if \<not> dict_contains m ''end'' then ''end'' else ''step''))
     \<and> (\<exists>e. add_array_parameters env (JObject d) = Inl e)
     \<and> (list_all (resolves env) pre
          \<longrightarrow> add_array_parameters env (JObject d)
              = Inl (KeyError (if \<not> dict_contains m ''start'' then ''start''
                               else if \<not> dict_contains m ''end'' then ''end'' else ''step'')))
     \<and> (\<forall>v. resolve_range env v = Inl (ValueError ''Invalid range type'')
              \<longrightarrow> \<not> is_list v \<and> \<not> is_dict v)
     \<and> (add_array_parameters env (JObject d) = Inl (ValueError ''Invalid range type'')
          \<longrightarrow> (\<exists>p \<in> set d. \<not> is_list (snd p) \<and> \<not> is_dict (snd p)))"
proof -
  let ?key = "if \<not> dict_contains m ''start'' then ''start''
              else if \<not> dict_contains m ''end'' then ''end'' else ''step''"
  have bad: "resolve_range env (JObject m) = Inl (KeyError ?key)"
    using missing by (rule resolve_range_missing_key)
  have mem: "(k, JObject m) \<in> set d" using decomp by simp
  have c2: "\<exists>e. add_array_parameters env (JObject d) = Inl e"
    using keys mem bad by (rule add_array_parameters_member_fails)
  have c3: "list_all (resolves env) pre \<longrightarrow> add_array_parameters env (JObject d) = Inl (KeyError ?key)"
    using add_array_parameters_first_failure[OF keys decomp _ bad] by (intro impI)
  have c4: "\<forall>v. resolve_range env v = Inl (ValueError ''Invalid range type'')
              \<longrightarrow> \<not> is_list v \<and> \<not> is_dict v"
    using resolve_range_ValueError_shape by (intro allI impI)
  have c5: "add_array_parameters env (JObject d) = Inl (ValueError ''Invalid range type'')
          \<longrightarrow> (\<exists>p \<in> set d. \<not> is_list (snd p) \<and> \<not> is_dict (snd p))"
  proof
    assume "add_array_parameters env (JObject d) = Inl (ValueError ''Invalid range type'')"
    then obtain p where "p \<in> set d" "resolve_range env (snd p) = Inl (ValueError ''Invalid range type'')"
      using add_array_parameters_error_source[OF keys] by blast
    then show "\<exists>p \<in> set d. \<not> is_list (snd p) \<and> \<not> is_dict (snd p)"
      using resolve_range_ValueError_shape by blast
  qed
  show ?thesis
    by (intro conjI bad c2 c3 c4 c5)
qed

text \<open>The theorem at a descriptor without \<open>end\<close>, declared after an explicit list.\<close>

theorem missing_key_raises_key_error_witness:
  "add_array_parameters env0
     (JObject [(''a'', JArray [JInt 1]), (''b'', JObject [(''start'', JInt 0), (''step'', JInt 1)])])
   = Inl (KeyError ''end'')"
proof -
  let ?m = "[(''start'', JInt 0), (''step'', JInt 1)]"
  let ?d = "[(''a'', JArray [JInt 1]), (''b'', JObject ?m)]"
  have keys: "distinct (dict_keys ?d)" by (simp add: dict_keys_def)
  have decomp: "?d = [(''a'', JArray [JInt 1])] @ (''b'', JObject ?m) # []" by simp
  have missing: "\<not> (dict_contains ?m ''start'' \<and> dict_contains ?m ''end'' \<and> dict_contains ?m ''step'')"
    by (simp add: dict_contains_def dict_keys_def)
  have pre: "list_all (resolves env0) [(''a'', JArray [JInt 1])]"
    by (simp add: resolves_def)
  have key: "(if \<not> dict_contains ?m ''start'' then ''start''
              else if \<not> dict_contains ?m ''end'' then ''end'' else ''step'') = ''end''"
    by (simp add: dict_contains_def dict_keys_def)
  show ?thesis
    using missing_key_raises_key_error
          [OF keys decomp missing, THEN conjunct2, THEN conjunct2, THEN conjunct1, rule_format, OF pre]
    unfolding key .
qed

text \<open>
  C10 as stated fails: the parameters are resolved in declared order. Here \<open>b\<close> is a
  dictionary without its keys, yet the error is the validation error of \<open>a\<close>.
\<close>

theorem missing_key_other_error_first:
  "add_array_parameters env0 (JObject [(''a'', JString ''x''), (''b'', JObject [])])
   = Inl (ValueError ''Invalid range type'')"
  by (simp add: dict_keys_def dict_getitem_def)


section \<open>The Metadata Recorder: a failed update writes nothing\<close>





section \<open>The Metadata Recorder: a fresh record\<close>

text \<open>
  C9. A record that \<open>generate_metadata_file\<close> has created holds the five top-level
  sections \<open>general_metadata\<close>, \<open>job_information\<close>, \<open>slurm_parameters\<close>,
  \<open>simulation_parameters\<close> and \<open>array_parameters\<close>, in this order; its job information
  has the fields \<open>job_id\<close>, \<open>state\<close>, \<open>start_time\<close>, \<open>end_time\<close> and \<open>elapsed_time\<close>,
  all null; and the scheduler, simulation and array sections are the values it was
  given, unchanged. No other file is touched.
\<close>

theorem generate_metadata_file_fresh:
  assumes "generate_metadata_file env w path slurm_params simulation_params array_params other_params
             = (Inr u, w')"
  shows "\<exists>meta general ji.
       load_json w' path = Inr (JObject meta)
     \<and> dict_keys meta = [''general_metadata'', ''job_information'', ''slurm_parameters'',
                          ''simulation_parameters'', ''array_parameters'']
     \<and> map_of meta ''general_metadata'' = Some (JObject general)
     \<and> dict_keys general = [''author'', ''creation_date'', ''description'', ''github_version'']
     \<and> map_of meta ''job_information'' = Some (JObject ji)
     \<and> dict_keys ji = [''job_id'', ''state'', ''start_time'', ''end_time'', ''elapsed_time'']
     \<and> list_all (\<lambda>field. map_of ji field = Some JNull) (dict_keys ji)
     \<and> map_of meta ''slurm_parameters'' = Some slurm_params
     \<and> map_of meta ''simulation_parameters'' = Some simulation_params
     \<and> map_of meta ''array_parameters'' = Some array_params
     \<and> w' = w\<lparr>files := (files w)(path \<mapsto> JsonText (JObject meta))\<rparr>"
proof -
  obtain description where d: "py_getitem other_params ''description'' = Inr description"
    using assms by (cases "py_getitem other_params ''description''")
      (simp_all add: generate_metadata_file_def)
  obtain hexsha where h: "git_hexsha env = Inr hexsha"
    using assms d by (cases "git_hexsha env") (simp_all add: generate_metadata_file_def)
  let ?general = "[(''author'', JString ''Julien Drapeau''),
                   (''creation_date'', JString (today env)),
                   (''description'', description),
                   (''github_version'', JString hexsha)]"
  let ?ji = "[(''job_id'', JNull), (''state'', JNull), (''start_time'', JNull),
              (''end_time'', JNull), (''elapsed_time'', JNull)]"
  let ?meta = "[(''general_metadata'', JObject ?general),
                (''job_information'', JObject ?ji),
                (''slurm_parameters'', slurm_params),
                (''simulation_parameters'', simulation_params),
                (''array_parameters'', array_params)]"
  have w': "w' = w\<lparr>files := (files w)(path \<mapsto> JsonText (JObject ?meta))\<rparr>"
    using assms d h by (simp add: generate_metadata_file_def dump_json_def)
  have l: "load_json w' path = Inr (JObject ?meta)"
    unfolding w' by (simp add: load_json_def)
  have k: "dict_keys ?meta = [''general_metadata'', ''job_information'', ''slurm_parameters'',
                          ''simulation_parameters'', ''array_parameters'']"
    by (simp add: dict_keys_def)
  have g: "map_of ?meta ''general_metadata'' = Some (JObject ?general)" by simp
  have gk: "dict_keys ?general = [''author'', ''creation_date'', ''description'', ''github_version'']"
    by (simp add: dict_keys_def)
  have j: "map_of ?meta ''job_information'' = Some (JObject ?ji)" by simp
  have jk: "dict_keys ?ji = [''job_id'', ''state'', ''start_time'', ''end_time'', ''elapsed_time'']"
    by (simp add: dict_keys_def)
  have jn: "list_all (\<lambda>field. map_of ?ji field = Some JNull) (dict_keys ?ji)"
    by (simp add: dict_keys_def)
  have s1: "map_of ?meta ''slurm_parameters'' = Some slurm_params" by simp
  have s2: "map_of ?meta ''simulation_parameters'' = Some simulation_params" by simp
  have s3: "map_of ?meta ''array_parameters'' = Some array_params" by simp
  show ?thesis
    by (intro exI[of _ ?meta] exI[of _ ?general] exI[of _ ?ji] conjI l k g gk j jk jn s1 s2 s3 w')
qed

text \<open>The theorem at a run inside a working copy, the description being present.\<close>

theorem generate_metadata_file_fresh_witness:
  "\<exists>w' meta ji.
       generate_metadata_file env0 world0 ''out/run_1/metadata.json''
         (JObject [(''partition'', JString ''main''), (''output_directory'', JString ''out'')])
         (JObject [(''output_directory'', JString ''out''), (''seed'', JInt 7)])
         (JObject [(''a'', JArray [JInt 1, JInt 2])])
         (JObject [(''description'', JString ''sweep'')])
       = (Inr (), w')
     \<and> load_json w' ''out/run_1/metadata.json'' = Inr (JObject meta)
     \<and> map_of meta ''job_information'' = Some (JObject ji)
     \<and> map_of ji ''job_id'' = Some JNull
     \<and> map_of ji ''elapsed_time'' = Some JNull
     \<and> map_of meta ''slurm_parameters''
         = Some (JObject [(''partition'', JString ''main''), (''output_directory'', JString ''out'')])
     \<and> map_of meta ''simulation_parameters''
         = Some (JObject [(''output_directory'', JString ''out''), (''seed'', JInt 7)])
     \<and> map_of meta ''array_parameters'' = Some (JObject [(''a'', JArray [JInt 1, JInt 2])])"
proof -
  let ?slurm = "JObject [(''partition'', JString ''main''), (''output_directory'', JString ''out'')]"
  let ?simul = "JObject [(''output_directory'', JString ''out''), (''seed'', JInt 7)]"
  let ?arr = "JObject [(''a'', JArray [JInt 1, JInt 2])]"
  let ?other = "JObject [(''description'', JString ''sweep'')]"
  obtain r w' where run: "generate_metadata_file env0 world0 ''out/run_1/metadata.json''
      ?slurm ?simul ?arr ?other = (r, w')"
    by (cases "generate_metadata_file env0 world0 ''out/run_1/metadata.json'' ?slurm ?simul ?arr ?other")
  have r: "r = Inr ()"
    using run by (simp add: generate_metadata_file_def env0_def dict_getitem_def)
  have ok: "generate_metadata_file env0 world0 ''out/run_1/metadata.json''
      ?slurm ?simul ?arr ?other = (Inr (), w')"
    using run r by simp
  from generate_metadata_file_fresh[OF ok] obtain meta general ji where
    all: "load_json w' ''out/run_1/metadata.json'' = Inr (JObject meta)
     \<and> dict_keys meta = [''general_metadata'', ''job_information'', ''slurm_parameters'',
                          ''simulation_parameters'', ''array_parameters'']
     \<and> map_of meta ''general_metadata'' = Some (JObject general)
     \<and> dict_keys general = [''author'', ''creation_date'', ''description'', ''github_version'']
     \<and> map_of meta ''job_information'' = Some (JObject ji)
     \<and> dict_keys ji = [''job_id'', ''state'', ''start_time'', ''end_time'', ''elapsed_time'']
     \<and> list_all (\<lambda>field. map_of ji field = Some JNull) (dict_keys ji)
     \<and> map_of meta ''slurm_parameters'' = Some ?slurm
     \<and> map_of meta ''simulation_parameters'' = Some ?simul
     \<and> map_of meta ''array_parameters'' = Some ?arr
     \<and> w' = world0\<lparr>files := (files world0)(''out/run_1/metadata.json'' \<mapsto> JsonText (JObject meta))\<rparr>"
    by (elim exE)
  have l: "load_json w' ''out/run_1/metadata.json'' = Inr (JObject meta)"
    using all by (elim conjE)
  have j: "map_of meta ''job_information'' = Some (JObject ji)"
    using all by (elim conjE)
  have nulls: "list_all (\<lambda>field. map_of ji field = Some JNull)
      [''job_id'', ''state'', ''start_time'', ''end_time'', ''elapsed_time'']"
    using all by (elim conjE) simp
  have n1: "map_of ji ''job_id'' = Some JNull" using nulls by simp
  have n2: "map_of ji ''elapsed_time'' = Some JNull" using nulls by simp
  have s1: "map_of meta ''slurm_parameters'' = Some ?slurm" using all by (elim conjE)
  have s2: "map_of meta ''simulation_parameters'' = Some ?simul" using all by (elim conjE)
  have s3: "map_of meta ''array_parameters'' = Some ?arr" using all by (elim conjE)
  show ?thesis
    by (intro exI[of _ w'] exI[of _ meta] exI[of _ ji] conjI ok l j n1 n2 s1 s2 s3)
qed

end
